theory Spec2Isabelle
  imports Complex_Main
begin

section \<open>Rent schedule calculator of rentwise\<close>

text \<open>
  The calculator lives in the tenants page (\<^verbatim>\<open>src/unnamed/part_005\<close>, lines 296 to 384), with
  copies of two of its functions in the tenant form (\<^verbatim>\<open>src/unnamed/part_001\<close>, lines 65 to 83)
  and an inline end-date computation in the dashboard (\<^verbatim>\<open>src/unnamed/part_004\<close>, lines 61
  to 76). All of it is arithmetic on JavaScript \<^verbatim>\<open>Date\<close> objects and numbers.

  How the JavaScript host is modelled:
  \<^item> A \<^verbatim>\<open>Date\<close> holds a time value or is an Invalid Date. A time value is modelled by its
    fields in the local time of the host: year, month index (0 is January), day of the
    month and minutes after local midnight. The host's zone is a parameter: a fixed offset
    from UTC in minutes (345 for Asia/Kathmandu, -240 for America/New_York in summer, 0 for
    UTC); daylight saving changes are not modelled. \<^verbatim>\<open>new Date("YYYY-MM-DD")\<close> and
    \<^verbatim>\<open>toISOString\<close> work in UTC, the getters, the setters and \<^verbatim>\<open>new Date(y, m, d)\<close> in local
    time. Comparing two dates compares their time values, which for two dates of the same
    host is the lexicographic comparison of the local fields.
  \<^item> Time values are limited to 100 million days around 1970-01-01 UTC, that is from
    -271821-04-20 to 275760-09-13: a setter or a constructor that leaves this range gives
    an Invalid Date, whose getters return \<^verbatim>\<open>NaN\<close> and whose \<^verbatim>\<open>toISOString\<close> throws
    \<^verbatim>\<open>RangeError\<close>.
  \<^item> A date string \<^verbatim>\<open>"YYYY-MM-DD"\<close> is modelled by the calendar date it denotes; the empty
    string (the form's initial value, falsy in JavaScript) by \<open>None\<close>. The column
    \<^verbatim>\<open>contract_start_date\<close> is \<^verbatim>\<open>DATE NOT NULL\<close>, the form field is an
    \<^verbatim>\<open>input type="date"\<close>: no other string reaches the calculator.
  \<^item> Integer columns are \<open>int\<close>. A null column behaves as 0 at every use in the calculator
    (\<^verbatim>\<open>!x\<close>, \<^verbatim>\<open>x || 0\<close>, \<^verbatim>\<open>n + x\<close>), so it is carried as 0.
  \<^item> Amounts are IEEE doubles: finite values \<open>m * 2 ^ e\<close> with at most 53 bits, the two
    infinities and \<^verbatim>\<open>NaN\<close>, with the results of \<^verbatim>\<open>+\<close>, \<^verbatim>\<open>*\<close> and \<^verbatim>\<open>/\<close> rounded to nearest,
    ties to even. The sign of zero is not modelled. \<^verbatim>\<open>Math.pow\<close> is approximated by each
    implementation in its own way, so it is a parameter of the host as well.
\<close>

subsection \<open>The Gregorian calendar\<close>

definition leap_year :: "int \<Rightarrow> bool" where
  "leap_year y = (if y mod 400 = 0 then True else if y mod 100 = 0 then False else y mod 4 = 0)"

text \<open>Days of month \<open>m\<close> (0 to 11) of year \<open>y\<close>.\<close>

definition days_in_month :: "int \<Rightarrow> int \<Rightarrow> int" where
  "days_in_month y m =
     (if m = 1 then (if leap_year y then 29 else 28)
      else if m = 3 then 30 else if m = 5 then 30 else if m = 8 then 30 else if m = 10 then 30
      else 31)"

record date =
  yr :: int
  mo :: int
  dy :: int

text \<open>A date of the calendar, as opposed to any triple of integers.\<close>

definition valid_date :: "'a date_scheme \<Rightarrow> bool" where
  "valid_date c = (0 \<le> mo c \<and> mo c \<le> 11 \<and> 1 \<le> dy c \<and> dy c \<le> days_in_month (yr c) (mo c))"

lemma days_in_month_bounds: "28 \<le> days_in_month y m \<and> days_in_month y m \<le> 31"
  by (simp add: days_in_month_def)

text \<open>
  ECMAScript's \<^verbatim>\<open>MakeDay(year, month, date)\<close> is the day number of the first of the month
  \<open>(year + month div 12, month mod 12)\<close> plus \<open>date - 1\<close>. \<open>norm_day y m d\<close> is the date that
  lies \<open>d - 1\<close> days after the first of month \<open>m\<close> of year \<open>y\<close>: a day number below 1 moves
  into the months before, one above the length of the month into the months after.
\<close>

function norm_day :: "int \<Rightarrow> int \<Rightarrow> int \<Rightarrow> date" where
  "norm_day y m d =
     (if d < 1 then
        (if m = 0 then norm_day (y - 1) 11 (d + 31)
         else norm_day y (m - 1) (d + days_in_month y (m - 1)))
      else if days_in_month y m < d then
        (if m = 11 then norm_day (y + 1) 0 (d - 31)
         else norm_day y (m + 1) (d - days_in_month y m))
      else \<lparr>yr = y, mo = m, dy = d\<rparr>)"
  by pat_completeness auto
termination
proof (relation "measure (\<lambda>(y, m, d). if d < 1 then nat (32 - d) else nat d)")
  show "wf (measure (\<lambda>(y, m, d). if d < 1 then nat (32 - d) else nat d))"
    by simp
next
  fix y m d :: int
  assume "d < 1" "m = 0"
  then show "((y - 1, 11, d + 31), (y, m, d))
      \<in> measure (\<lambda>(y, m, d). if d < 1 then nat (32 - d) else nat d)"
    by simp
next
  fix y m d :: int
  assume "d < 1" "m \<noteq> 0"
  with days_in_month_bounds [of y "m - 1"]
  show "((y, m - 1, d + days_in_month y (m - 1)), (y, m, d))
      \<in> measure (\<lambda>(y, m, d). if d < 1 then nat (32 - d) else nat d)"
    by simp
next
  fix y m d :: int
  assume "\<not> d < 1" "days_in_month y m < d" "m = 11"
  then show "((y + 1, 0, d - 31), (y, m, d))
      \<in> measure (\<lambda>(y, m, d). if d < 1 then nat (32 - d) else nat d)"
    by (simp add: days_in_month_def)
next
  fix y m d :: int
  assume "\<not> d < 1" "days_in_month y m < d" "m \<noteq> 11"
  with days_in_month_bounds [of y m]
  show "((y, m + 1, d - days_in_month y m), (y, m, d))
      \<in> measure (\<lambda>(y, m, d). if d < 1 then nat (32 - d) else nat d)"
    by simp
qed

declare norm_day.simps [simp del]

definition make_day :: "int \<Rightarrow> int \<Rightarrow> int \<Rightarrow> date" where
  "make_day y m d = norm_day (y + m div 12) (m mod 12) d"


subsection \<open>Time values in the local time of the host\<close>

record local_time = date +
  tod :: int

definition at_time :: "date \<Rightarrow> int \<Rightarrow> local_time" where
  "at_time c t = \<lparr>yr = yr c, mo = mo c, dy = dy c, tod = t\<rparr>"

definition date_of :: "local_time \<Rightarrow> date" where
  "date_of i = \<lparr>yr = yr i, mo = mo i, dy = dy i\<rparr>"

definition time_lt :: "local_time \<Rightarrow> local_time \<Rightarrow> bool" where
  "time_lt a b =
     (if yr a = yr b then
        (if mo a = mo b then (if dy a = dy b then tod a < tod b else dy a < dy b)
         else mo a < mo b)
      else yr a < yr b)"

definition time_le :: "local_time \<Rightarrow> local_time \<Rightarrow> bool" where
  "time_le a b =
     (if yr a = yr b then
        (if mo a = mo b then (if dy a = dy b then tod a \<le> tod b else dy a < dy b)
         else mo a < mo b)
      else yr a < yr b)"

text \<open>
  The local time that is \<open>minutes\<close> after local midnight of the calendar day \<open>c\<close>, for any
  number of minutes: whole days move the date.
\<close>

definition shift_minutes :: "date \<Rightarrow> int \<Rightarrow> local_time" where
  "shift_minutes c minutes =
     at_time (make_day (yr c) (mo c) (dy c + minutes div 1440)) (minutes mod 1440)"


subsection \<open>Numbers\<close>

text \<open>
  A JavaScript number: \<open>Fin m e\<close> is the double \<open>m * 2 ^ e\<close>, kept in the form where \<open>m\<close> is
  odd (or where both are 0), so that equal doubles are equal terms.
\<close>

datatype js_number = NaN | PosInf | NegInf | Fin int int

text \<open>The number of bits of a positive integer.\<close>

function bitlen :: "int \<Rightarrow> int" where
  "bitlen n = (if n \<le> 0 then 0 else 1 + bitlen (n div 2))"
  by pat_completeness auto
termination
  by (relation "measure nat") auto

declare bitlen.simps [simp del]

function fin :: "int \<Rightarrow> int \<Rightarrow> js_number" where
  "fin m e = (if m = 0 then Fin 0 0 else if even m then fin (m div 2) (e + 1) else Fin m e)"
  by pat_completeness auto
termination
  by (relation "measure (\<lambda>(m, e). nat \<bar>m\<bar>)") auto

declare fin.simps [simp del]

definition infinity_of :: "int \<Rightarrow> js_number" where
  "infinity_of m = (if m < 0 then NegInf else PosInf)"

text \<open>
  The double nearest to the exact value \<open>m * 2 ^ e\<close>, ties to even. The result keeps 53
  bits, fewer below \<open>2 ^ (- 1022)\<close> where the spacing of the doubles stays \<open>2 ^ (- 1074)\<close>,
  and is infinite from \<open>2 ^ 1024\<close> on.
\<close>

definition round_dyadic :: "int \<Rightarrow> int \<Rightarrow> js_number" where
  "round_dyadic m e =
     (if m = 0 then Fin 0 0
      else
        let a = \<bar>m\<bar>;
            n = bitlen a;
            q = max (e + n - 53) (- 1074)
        in if q \<le> e then (if 1024 < n + e then infinity_of m else fin m e)
           else
             let s = nat (q - e);
                 k = a div 2 ^ s;
                 r = a mod 2 ^ s;
                 h = 2 ^ (s - 1);
                 k = (if h < r \<or> (r = h \<and> odd k) then k + 1 else k)
             in if k = 0 then Fin 0 0
                else if 1024 < bitlen k + q then infinity_of m
                else fin (sgn m * k) q)"

definition js_of_int :: "int \<Rightarrow> js_number" where
  "js_of_int n = round_dyadic n 0"

definition js_mul :: "js_number \<Rightarrow> js_number \<Rightarrow> js_number" where
  "js_mul x y =
     (case (x, y) of
        (Fin a i, Fin b j) \<Rightarrow> round_dyadic (a * b) (i + j)
      | (NaN, _) \<Rightarrow> NaN
      | (_, NaN) \<Rightarrow> NaN
      | (Fin a i, PosInf) \<Rightarrow> if a = 0 then NaN else infinity_of a
      | (Fin a i, NegInf) \<Rightarrow> if a = 0 then NaN else infinity_of (- a)
      | (PosInf, Fin b j) \<Rightarrow> if b = 0 then NaN else infinity_of b
      | (NegInf, Fin b j) \<Rightarrow> if b = 0 then NaN else infinity_of (- b)
      | (PosInf, PosInf) \<Rightarrow> PosInf
      | (NegInf, NegInf) \<Rightarrow> PosInf
      | (PosInf, NegInf) \<Rightarrow> NegInf
      | (NegInf, PosInf) \<Rightarrow> NegInf)"

definition js_add :: "js_number \<Rightarrow> js_number \<Rightarrow> js_number" where
  "js_add x y =
     (case (x, y) of
        (Fin a i, Fin b j) \<Rightarrow>
          (let e = min i j in round_dyadic (a * 2 ^ nat (i - e) + b * 2 ^ nat (j - e)) e)
      | (NaN, _) \<Rightarrow> NaN
      | (_, NaN) \<Rightarrow> NaN
      | (PosInf, NegInf) \<Rightarrow> NaN
      | (NegInf, PosInf) \<Rightarrow> NaN
      | (PosInf, _) \<Rightarrow> PosInf
      | (NegInf, _) \<Rightarrow> NegInf
      | (_, PosInf) \<Rightarrow> PosInf
      | (_, NegInf) \<Rightarrow> NegInf)"

text \<open>
  The quotient of two finite doubles is rounded from a quotient of integers that is at
  least two bits longer than a double, with one more bit that records a remainder.
\<close>

definition js_div :: "js_number \<Rightarrow> js_number \<Rightarrow> js_number" where
  "js_div x y =
     (case (x, y) of
        (Fin a i, Fin b j) \<Rightarrow>
          (if b = 0 then (if a = 0 then NaN else infinity_of a)
           else
             let p = \<bar>a\<bar>;
                 d = \<bar>b\<bar>;
                 k = nat (max 0 (bitlen d - bitlen p + 55));
                 q = (p * 2 ^ k) div d;
                 r = (p * 2 ^ k) mod d
             in round_dyadic (sgn a * sgn b * (2 * q + (if r = 0 then 0 else 1)))
                  (i - j - int k - 1))
      | (NaN, _) \<Rightarrow> NaN
      | (_, NaN) \<Rightarrow> NaN
      | (Fin a i, _) \<Rightarrow> Fin 0 0
      | (PosInf, Fin b j) \<Rightarrow> infinity_of (if b = 0 then 1 else b)
      | (NegInf, Fin b j) \<Rightarrow> infinity_of (if b = 0 then - 1 else - b)
      | (_, _) \<Rightarrow> NaN)"

text \<open>\<^verbatim>\<open><=\<close> on numbers: false when one side is \<^verbatim>\<open>NaN\<close>.\<close>

definition js_le :: "js_number \<Rightarrow> js_number \<Rightarrow> bool" where
  "js_le x y =
     (case (x, y) of
        (Fin a i, Fin b j) \<Rightarrow> (let e = min i j in a * 2 ^ nat (i - e) \<le> b * 2 ^ nat (j - e))
      | (NaN, _) \<Rightarrow> False
      | (_, NaN) \<Rightarrow> False
      | (NegInf, _) \<Rightarrow> True
      | (_, PosInf) \<Rightarrow> True
      | (_, _) \<Rightarrow> False)"

text \<open>\<^verbatim>\<open>Math.max\<close> of two numbers, \<^verbatim>\<open>x || 0\<close> and \<^verbatim>\<open>x === 0\<close>.\<close>

definition Math_max :: "js_number \<Rightarrow> js_number \<Rightarrow> js_number" where
  "Math_max x y = (if x = NaN \<or> y = NaN then NaN else if js_le x y then y else x)"

definition or_zero :: "js_number \<Rightarrow> js_number" where
  "or_zero x = (if x = NaN \<or> x = Fin 0 0 then Fin 0 0 else x)"

text \<open>
  The correctly rounded power, one possible \<^verbatim>\<open>Math.pow\<close> for a positive whole exponent. A
  power of \<open>m * 2 ^ e\<close> is \<open>m ^ n * 2 ^ (e * n)\<close> exactly.
\<close>

definition rounded_pow :: "js_number \<Rightarrow> nat \<Rightarrow> js_number" where
  "rounded_pow x n =
     (case x of
        Fin a i \<Rightarrow> round_dyadic (a ^ n) (i * int n)
      | NaN \<Rightarrow> (if n = 0 then Fin 1 0 else NaN)
      | PosInf \<Rightarrow> (if n = 0 then Fin 1 0 else PosInf)
      | NegInf \<Rightarrow> (if n = 0 then Fin 1 0 else if even n then PosInf else NegInf))"


subsection \<open>The host and its Date operations\<close>

record host =
  utc_offset :: int
  Math_pow :: "js_number \<Rightarrow> nat \<Rightarrow> js_number"

text \<open>\<open>None\<close> is the Invalid Date; a getter's \<open>None\<close> is \<^verbatim>\<open>NaN\<close>.\<close>

type_synonym Date = "local_time option"

datatype error = RangeError

definition min_time :: "host \<Rightarrow> local_time" where
  "min_time h = shift_minutes \<lparr>yr = - 271821, mo = 3, dy = 20\<rparr> (utc_offset h)"

definition max_time :: "host \<Rightarrow> local_time" where
  "max_time h = shift_minutes \<lparr>yr = 275760, mo = 8, dy = 13\<rparr> (utc_offset h)"

definition TimeClip :: "host \<Rightarrow> local_time \<Rightarrow> Date" where
  "TimeClip h i = (if time_le (min_time h) i \<and> time_le i (max_time h) then Some i else None)"

text \<open>\<^verbatim>\<open>new Date("YYYY-MM-DD")\<close>: midnight UTC of that day.\<close>

definition new_Date_text :: "host \<Rightarrow> date \<Rightarrow> Date" where
  "new_Date_text h c = TimeClip h (shift_minutes c (utc_offset h))"

text \<open>
  \<^verbatim>\<open>new Date(year, month, day)\<close>: local midnight; a year from 0 to 99 stands for 1900 + year
  (the setters have no such rule).
\<close>

definition new_Date :: "host \<Rightarrow> int option \<Rightarrow> int option \<Rightarrow> int option \<Rightarrow> Date" where
  "new_Date h year month day =
     (case (year, month, day) of
        (Some y, Some m, Some d) \<Rightarrow>
          TimeClip h (at_time (make_day (if 0 \<le> y \<and> y \<le> 99 then 1900 + y else y) m d) 0)
      | _ \<Rightarrow> None)"

definition getFullYear :: "Date \<Rightarrow> int option" where
  "getFullYear D = map_option yr D"

definition getMonth :: "Date \<Rightarrow> int option" where
  "getMonth D = map_option mo D"

definition getDate :: "Date \<Rightarrow> int option" where
  "getDate D = map_option dy D"

text \<open>\<^verbatim>\<open>x + n\<close> for a getter's result \<open>x\<close> and an integer \<open>n\<close>.\<close>

definition plus_int :: "int option \<Rightarrow> int \<Rightarrow> int option" where
  "plus_int x n = map_option (\<lambda>a. a + n) x"

text \<open>
  \<^verbatim>\<open>setFullYear\<close> starts from 1970-01-01 UTC when the date is invalid; the other two setters
  leave an Invalid Date as it is.
\<close>

definition setFullYear :: "host \<Rightarrow> Date \<Rightarrow> int option \<Rightarrow> Date" where
  "setFullYear h D year =
     (case year of
        None \<Rightarrow> None
      | Some y \<Rightarrow>
          (let t = (case D of
                      None \<Rightarrow> shift_minutes \<lparr>yr = 1970, mo = 0, dy = 1\<rparr> (utc_offset h)
                    | Some i \<Rightarrow> i)
           in TimeClip h (at_time (make_day y (mo t) (dy t)) (tod t))))"

definition setMonth :: "host \<Rightarrow> Date \<Rightarrow> int option \<Rightarrow> Date" where
  "setMonth h D month =
     (case (D, month) of
        (Some i, Some m) \<Rightarrow> TimeClip h (at_time (make_day (yr i) m (dy i)) (tod i))
      | _ \<Rightarrow> None)"

definition setDate :: "host \<Rightarrow> Date \<Rightarrow> int option \<Rightarrow> Date" where
  "setDate h D day =
     (case (D, day) of
        (Some i, Some d) \<Rightarrow> TimeClip h (at_time (make_day (yr i) (mo i) d) (tod i))
      | _ \<Rightarrow> None)"

text \<open>\<^verbatim>\<open>toISOString().split('T')[0]\<close>: the UTC date of the time value.\<close>

definition toISOString_date :: "host \<Rightarrow> Date \<Rightarrow> error + date" where
  "toISOString_date h D =
     (case D of
        None \<Rightarrow> Inl RangeError
      | Some i \<Rightarrow> Inr (date_of (shift_minutes (date_of i) (tod i - utc_offset h))))"

text \<open>\<^verbatim>\<open><\<close> and \<^verbatim>\<open><=\<close> on dates compare time values: false when one side is invalid.\<close>

definition date_lt :: "Date \<Rightarrow> Date \<Rightarrow> bool" where
  "date_lt A B = (case (A, B) of (Some a, Some b) \<Rightarrow> time_lt a b | _ \<Rightarrow> False)"

definition date_le :: "Date \<Rightarrow> Date \<Rightarrow> bool" where
  "date_le A B = (case (A, B) of (Some a, Some b) \<Rightarrow> time_le a b | _ \<Rightarrow> False)"

text \<open>The date written \<^verbatim>\<open>"YYYY-MM-DD"\<close>: the month of the text counts from 1.\<close>

definition iso_date :: "int \<Rightarrow> int \<Rightarrow> int \<Rightarrow> date" where
  "iso_date y m d = \<lparr>yr = y, mo = m - 1, dy = d\<rparr>"


subsection \<open>Billing frequency\<close>






subsection \<open>Contract end date\<close>

text \<open>
  \<^verbatim>\<open>calculateContractEndDate\<close> (the same text in the tenants page and in the tenant form).
  \<open>Inr None\<close> is the source's \<^verbatim>\<open>null\<close>, \<open>Inr (Some d)\<close> the text of the date \<open>d\<close>, and
  \<open>Inl RangeError\<close> the exception that \<^verbatim>\<open>toISOString\<close> throws on an Invalid Date.
\<close>

definition calculateContractEndDate ::
  "host \<Rightarrow> date option \<Rightarrow> int \<Rightarrow> int \<Rightarrow> error + date option" where
  "calculateContractEndDate h startDate years months =
     (case startDate of
        None \<Rightarrow> Inr None
      | Some s \<Rightarrow>
          if years = 0 \<and> months = 0 then Inr None
          else
            let endDate = new_Date_text h s;
                endDate = setFullYear h endDate (plus_int (getFullYear endDate) years);
                endDate = setMonth h endDate (plus_int (getMonth endDate) months);
                endDate = setDate h endDate (plus_int (getDate endDate) (- 1))
            in (case toISOString_date h endDate of
                  Inl e \<Rightarrow> Inl e
                | Inr d \<Rightarrow> Inr (Some d)))"

text \<open>
  The dashboard's \<^verbatim>\<open>upcomingRenewals\<close> computes the end of a contract inline, as a
  \<^verbatim>\<open>Date\<close>.
\<close>

definition dashboard_contractEnd :: "host \<Rightarrow> date \<Rightarrow> int \<Rightarrow> int \<Rightarrow> Date" where
  "dashboard_contractEnd h contract_start years months =
     (let startDate = new_Date_text h contract_start;
          totalMonths = years * 12 + months;
          contractEnd = startDate;
          contractEnd = setMonth h contractEnd (plus_int (getMonth contractEnd) totalMonths);
          contractEnd = setDate h contractEnd (plus_int (getDate contractEnd) (- 1))
      in contractEnd)"

definition addMonths :: "host \<Rightarrow> Date \<Rightarrow> int \<Rightarrow> Date" where
  "addMonths h d months = setMonth h d (plus_int (getMonth d) months)"

definition monthsBetweenInclusive :: "Date \<Rightarrow> Date \<Rightarrow> int option" where
  "monthsBetweenInclusive from to =
     (case (getFullYear to, getFullYear from, getMonth to, getMonth from) of
        (Some ty, Some fy, Some tm, Some fm) \<Rightarrow> Some ((ty - fy) * 12 + (tm - fm) + 1)
      | _ \<Rightarrow> None)"

subsection \<open>Effective monthly rent\<close>

text \<open>
  The fields of \<^verbatim>\<open>Tenant\<close> that the calculator reads. \<^verbatim>\<open>contract_start_date\<close> is the text of a
  date, \<^verbatim>\<open>monthly_rent\<close> and \<^verbatim>\<open>rent_increment_percentage\<close> are decimal columns read as
  numbers (a null percentage is carried as \<^verbatim>\<open>NaN\<close>, which \<^verbatim>\<open>|| 0\<close> treats alike).
\<close>

record tenant =
  monthly_rent :: js_number
  rent_frequency :: string
  contract_start_date :: date
  contract_period_years :: int
  contract_period_months :: int
  rent_increment_percentage :: js_number
  rent_increment_interval_years :: int

lemma norm_day_valid: "0 \<le> m \<Longrightarrow> m \<le> 11 \<Longrightarrow> valid_date (norm_day y m d)"
proof (induction y m d rule: norm_day.induct)
  case (1 y m d)
  show ?case
  proof (cases "d < 1")
    case True
    with 1 show ?thesis
      by (subst norm_day.simps) auto
  next
    case False
    show ?thesis
    proof (cases "days_in_month y m < d")
      case True
      with False 1 show ?thesis
        by (subst norm_day.simps) auto
    next
      case inside: False
      with False 1 show ?thesis
        by (subst norm_day.simps) (simp add: valid_date_def)
    qed
  qed
qed

lemma make_day_valid: "valid_date (make_day y m d)"
  by (simp add: make_day_def norm_day_valid)

lemma norm_day_id:
  "1 \<le> d \<Longrightarrow> d \<le> days_in_month y m \<Longrightarrow> norm_day y m d = \<lparr>yr = y, mo = m, dy = d\<rparr>"
  by (subst norm_day.simps) simp

lemma valid_at_time [simp]: "valid_date (at_time c t) = valid_date c"
  by (simp add: valid_date_def at_time_def)

text \<open>
  Changing the year of a date of the calendar lands in the year asked for: the only day
  that may not exist there is 29 February, which becomes 1 March.
\<close>

lemma make_day_same_year:
  assumes "valid_date c"
  shows "yr (make_day y (mo c) (dy c)) = y"
proof -
  from assms have m: "mo c div 12 = 0" "mo c mod 12 = mo c"
    by (simp_all add: valid_date_def)
  show ?thesis
  proof (cases "dy c \<le> days_in_month y (mo c)")
    case True
    with assms show ?thesis
      by (simp add: make_day_def m valid_date_def norm_day_id)
  next
    case False
    with assms have feb: "mo c = 1" and d29: "dy c = 29" and len: "days_in_month y 1 = 28"
      by (auto simp: valid_date_def days_in_month_def split: if_splits)
    have "norm_day y 1 29 = norm_day y 2 1"
      using len by (subst norm_day.simps) simp
    also have "\<dots> = \<lparr>yr = y, mo = 2, dy = 1\<rparr>"
      by (rule norm_day_id) (simp_all add: days_in_month_def)
    finally show ?thesis
      using feb d29 by (simp add: make_day_def)
  qed
qed

lemma time_le_yr: "time_le a b \<Longrightarrow> yr a \<le> yr b"
  by (simp add: time_le_def split: if_splits)

lemma TimeClip_Some: "TimeClip h i = Some j \<Longrightarrow> j = i"
  by (simp add: TimeClip_def split: if_splits)

lemma setFullYear_Some:
  assumes "setFullYear h (Some c) (Some y) = Some n"
  shows "n = at_time (make_day y (mo c) (dy c)) (tod c)"
  using assms by (simp add: setFullYear_def TimeClip_Some)

text \<open>
  The loop of \<^verbatim>\<open>getEffectiveMonthlyRentForDate\<close> (lines 334 to 343): \<open>check\<close> and
  \<open>intervals\<close> are its two variables. The source reaches the loop only with
  \<open>intervalYears \<ge> 1\<close>, since line 330 returns before it otherwise; the first test below
  repeats that guard, which makes the recursion total. \<^verbatim>\<open>next\<close> and the new \<open>check\<close> are
  the same \<^verbatim>\<open>setFullYear\<close> of the same date.
\<close>

function count_intervals :: "host \<Rightarrow> Date \<Rightarrow> Date \<Rightarrow> int \<Rightarrow> nat \<Rightarrow> nat" where
  "count_intervals h check onDate intervalYears intervals =
     (if intervalYears \<le> 0 then intervals
      else if date_le (setFullYear h check (plus_int (getFullYear check) intervalYears)) onDate
      then count_intervals h (setFullYear h check (plus_int (getFullYear check) intervalYears))
             onDate intervalYears (intervals + 1)
      else intervals)"
  by pat_completeness auto
termination
proof (relation "measures
    [\<lambda>(h, c, on, k, n). case c of None \<Rightarrow> 2 | Some i \<Rightarrow> if valid_date i then 0 else 1,
     \<lambda>(h, c, on, k, n). case (c, on) of (Some i, Some j) \<Rightarrow> nat (yr j - yr i) | _ \<Rightarrow> 0]")
  show "wf (measures
    [\<lambda>(h, c, on, k, n). case c of None \<Rightarrow> 2 | Some i \<Rightarrow> if valid_date i then 0 else 1,
     \<lambda>(h, c, on, k, n). case (c, on) of (Some i, Some j) \<Rightarrow> nat (yr j - yr i) | _ \<Rightarrow> 0])"
    by simp
next
  fix h :: host and check onDate :: Date and intervalYears :: int and intervals :: nat
  let ?next = "setFullYear h check (plus_int (getFullYear check) intervalYears)"
  assume pos: "\<not> intervalYears \<le> 0" and le: "date_le ?next onDate"
  from le obtain n j where n: "?next = Some n" and j: "onDate = Some j" and nj: "time_le n j"
    by (auto simp: date_le_def split: option.splits)
  from n obtain c where c: "check = Some c"
    by (cases check) (simp_all add: setFullYear_def getFullYear_def plus_int_def)
  from n have n_eq: "n = at_time (make_day (yr c + intervalYears) (mo c) (dy c)) (tod c)"
    by (simp add: c getFullYear_def plus_int_def setFullYear_Some)
  have v: "valid_date n"
    by (simp add: n_eq make_day_valid)
  from n c
  have n': "setFullYear h (Some c) (plus_int (getFullYear (Some c)) intervalYears) = Some n"
    by simp
  show "((h, ?next, onDate, intervalYears, intervals + 1),
         (h, check, onDate, intervalYears, intervals))
      \<in> measures
    [\<lambda>(h, c, on, k, n). case c of None \<Rightarrow> 2 | Some i \<Rightarrow> if valid_date i then 0 else 1,
     \<lambda>(h, c, on, k, n). case (c, on) of (Some i, Some j) \<Rightarrow> nat (yr j - yr i) | _ \<Rightarrow> 0]"
  proof (cases "valid_date c")
    case True
    then have "yr n = yr c + intervalYears"
      by (simp add: n_eq at_time_def make_day_same_year)
    with pos time_le_yr [OF nj] v True show ?thesis
      by (simp add: n' c j)
  next
    case False
    with v show ?thesis
      by (simp add: n' c j)
  qed
qed

declare count_intervals.simps [simp del]

text \<open>\<^verbatim>\<open>Math.pow\<close>: 1 for the exponent 0, as the language requires of every host.\<close>

definition js_pow :: "host \<Rightarrow> js_number \<Rightarrow> nat \<Rightarrow> js_number" where
  "js_pow h x n = (if n = 0 then Fin 1 0 else Math_pow h x n)"

definition getEffectiveMonthlyRentForDate :: "host \<Rightarrow> tenant \<Rightarrow> Date \<Rightarrow> js_number" where
  "getEffectiveMonthlyRentForDate h tenant onDate =
     (let start = new_Date_text h (contract_start_date tenant);
          intervalYears = max (rent_increment_interval_years tenant) 0;
          pct = js_div (Math_max (or_zero (rent_increment_percentage tenant)) (Fin 0 0))
                  (js_of_int 100)
      in if intervalYears = 0 \<or> pct = Fin 0 0 then monthly_rent tenant
         else js_mul (monthly_rent tenant)
                (js_pow h (js_add (Fin 1 0) pct)
                   (count_intervals h start onDate intervalYears 0)))"


subsection \<open>Yearly breakdown\<close>

text \<open>A row; \<open>months = None\<close> is \<^verbatim>\<open>NaN\<close>.\<close>

record yearly_breakdown_row =
  yearLabel :: string
  months :: "int option"
  totalAmount :: js_number

text \<open>
  \<^verbatim>\<open>String(n)\<close> of a getter's result: the decimal digits of an integer, after a minus sign
  when negative, and \<^verbatim>\<open>"NaN"\<close>.
\<close>

fun decimal_digits :: "nat \<Rightarrow> string" where
  "decimal_digits n =
     (if n < 10 then [''0123456789'' ! n]
      else decimal_digits (n div 10) @ [''0123456789'' ! (n mod 10)])"

declare decimal_digits.simps [simp del]

definition String_of :: "int option \<Rightarrow> string" where
  "String_of x =
     (case x of
        None \<Rightarrow> ''NaN''
      | Some n \<Rightarrow> if n < 0 then CHR ''-'' # decimal_digits (nat (- n)) else decimal_digits (nat n))"

definition number_of :: "int option \<Rightarrow> js_number" where
  "number_of x = (case x of None \<Rightarrow> NaN | Some n \<Rightarrow> js_of_int n)"

lemma make_day_first_of_year: "make_day y 0 1 = \<lparr>yr = y, mo = 0, dy = 1\<rparr>"
  by (simp add: make_day_def norm_day_id days_in_month_def)

lemma new_Date_next_year:
  assumes "new_Date h (Some (y + 1)) (Some 0) (Some 1) = Some n"
  shows "y < yr n"
proof -
  from assms
  have "n = at_time (make_day (if 0 \<le> y + 1 \<and> y + 1 \<le> 99 then 1900 + (y + 1) else y + 1) 0 1) 0"
    by (simp add: new_Date_def TimeClip_Some)
  then show ?thesis
    by (simp add: make_day_first_of_year at_time_def)
qed

text \<open>
  The loop of \<^verbatim>\<open>buildYearlyBreakdown\<close> (lines 359 to 382): \<open>cursor\<close> and \<open>result\<close> are its
  two variables, \<open>end_date\<close> is the source's \<^verbatim>\<open>end\<close>. Both ways round the loop set
  \<open>cursor\<close> to 1 January of the next year; \<^verbatim>\<open>continue\<close> does so without pushing a row.
\<close>

function yearly_loop ::
  "host \<Rightarrow> tenant \<Rightarrow> Date \<Rightarrow> Date \<Rightarrow> yearly_breakdown_row list \<Rightarrow> yearly_breakdown_row list"
  where
  "yearly_loop h tenant end_date cursor result =
     (if date_le cursor end_date then
        (let yearStart = new_Date h (getFullYear cursor) (Some 0) (Some 1);
             yearEnd = new_Date h (getFullYear cursor) (Some 11) (Some 31);
             periodStart = (if date_lt cursor yearStart then yearStart else cursor);
             periodEnd = (if date_lt end_date yearEnd then end_date else yearEnd)
         in if date_lt periodEnd periodStart
            then yearly_loop h tenant end_date
                   (new_Date h (plus_int (getFullYear cursor) 1) (Some 0) (Some 1)) result
            else
              (let monthsInYear = monthsBetweenInclusive
                     (new_Date h (getFullYear periodStart) (getMonth periodStart) (Some 1))
                     (new_Date h (getFullYear periodEnd) (getMonth periodEnd) (Some 1));
                   referenceDate =
                     new_Date h (getFullYear periodStart) (getMonth periodStart) (Some 1);
                   monthly = getEffectiveMonthlyRentForDate h tenant referenceDate
               in yearly_loop h tenant end_date
                    (new_Date h (plus_int (getFullYear cursor) 1) (Some 0) (Some 1))
                    (result @
                      [\<lparr>yearLabel = String_of (getFullYear periodStart),
                        months = monthsInYear,
                        totalAmount = js_mul monthly (number_of monthsInYear)\<rparr>])))
      else result)"
  by pat_completeness auto
termination
proof (relation "measure (\<lambda>(h, t, e, c, r).
    case (c, e) of (Some i, Some j) \<Rightarrow> nat (yr j - yr i + 1) | _ \<Rightarrow> 0)")
  show "wf (measure (\<lambda>(h, t, e, c, r).
    case (c, e) of (Some i, Some j) \<Rightarrow> nat (yr j - yr i + 1) | _ \<Rightarrow> 0))"
    by simp
next
  fix h :: host and tenant :: tenant and end_date cursor :: Date
    and result :: "yearly_breakdown_row list"
  assume "date_le cursor end_date"
  then obtain c e where c: "cursor = Some c" and e: "end_date = Some e" and le: "time_le c e"
    by (auto simp: date_le_def split: option.splits)
  show "((h, tenant, end_date, new_Date h (plus_int (getFullYear cursor) 1) (Some 0) (Some 1),
          result), (h, tenant, end_date, cursor, result))
      \<in> measure (\<lambda>(h, t, e, c, r).
        case (c, e) of (Some i, Some j) \<Rightarrow> nat (yr j - yr i + 1) | _ \<Rightarrow> 0)"
    using time_le_yr [OF le] new_Date_next_year [of h "yr c"]
    by (auto simp: c e getFullYear_def plus_int_def split: option.splits)
next
  fix h :: host and tenant :: tenant and end_date cursor :: Date
    and result row :: "yearly_breakdown_row list"
  assume "date_le cursor end_date"
  then obtain c e where c: "cursor = Some c" and e: "end_date = Some e" and le: "time_le c e"
    by (auto simp: date_le_def split: option.splits)
  show "((h, tenant, end_date, new_Date h (plus_int (getFullYear cursor) 1) (Some 0) (Some 1),
          result @ row), (h, tenant, end_date, cursor, result))
      \<in> measure (\<lambda>(h, t, e, c, r).
        case (c, e) of (Some i, Some j) \<Rightarrow> nat (yr j - yr i + 1) | _ \<Rightarrow> 0)"
    using time_le_yr [OF le] new_Date_next_year [of h "yr c"]
    by (auto simp: c e getFullYear_def plus_int_def split: option.splits)
qed

declare yearly_loop.simps [simp del]

text \<open>
  \<open>Inl RangeError\<close> is the exception of \<^verbatim>\<open>calculateContractEndDate\<close>, which
  \<^verbatim>\<open>buildYearlyBreakdown\<close> does not catch.
\<close>

definition buildYearlyBreakdown :: "host \<Rightarrow> tenant \<Rightarrow> error + yearly_breakdown_row list" where
  "buildYearlyBreakdown h tenant =
     (let start = new_Date_text h (contract_start_date tenant)
      in case calculateContractEndDate h (Some (contract_start_date tenant))
              (contract_period_years tenant) (contract_period_months tenant) of
           Inl e \<Rightarrow> Inl e
         | Inr endIso \<Rightarrow>
             (let end_date = (case endIso of
                                Some e \<Rightarrow> new_Date_text h e
                              | None \<Rightarrow> addMonths h start 12)
              in Inr (yearly_loop h tenant end_date start [])))"


subsection \<open>The end date as the specification words it\<close>

text \<open>
  The specification describes the end date as: add \<open>years\<close> to the year component and
  \<open>months\<close> to the month component of the start date, carry the month overflow into the
  year, then subtract one day. \<open>contract_end_spec\<close> follows these words: both additions are
  made to the components of the start date, the month is carried, a day that the month
  reached does not have rolls into the next month, and \<open>previous_day\<close> steps one day back.
\<close>

definition previous_day :: "date \<Rightarrow> date" where
  "previous_day c =
     (if 1 < dy c then c\<lparr>dy := dy c - 1\<rparr>
      else if mo c = 0 then \<lparr>yr = yr c - 1, mo = 11, dy = 31\<rparr>
      else \<lparr>yr = yr c, mo = mo c - 1, dy = days_in_month (yr c) (mo c - 1)\<rparr>)"

definition contract_end_spec :: "date \<Rightarrow> int \<Rightarrow> int \<Rightarrow> date" where
  "contract_end_spec start n_years n_months =
     (let y = yr start + n_years;
          m = mo start + n_months
      in previous_day (norm_day (y + m div 12) (m mod 12) (dy start)))"

text \<open>
  A host at a given offset from UTC whose \<^verbatim>\<open>Math.pow\<close> is correctly rounded, and a tenant
  record from its fields, for stating examples.
\<close>

definition host_at :: "int \<Rightarrow> host" where
  "host_at z = \<lparr>utc_offset = z, Math_pow = rounded_pow\<rparr>"

definition tenant_of :: "date \<Rightarrow> int \<Rightarrow> int \<Rightarrow> js_number \<Rightarrow> js_number \<Rightarrow> int \<Rightarrow> tenant" where
  "tenant_of start n_years n_months rent percentage intervalYears =
     \<lparr>monthly_rent = rent, rent_frequency = ''monthly'', contract_start_date = start,
      contract_period_years = n_years, contract_period_months = n_months,
      rent_increment_percentage = percentage, rent_increment_interval_years = intervalYears\<rparr>"



section \<open>Properties\<close>

lemmas date_api =
  getFullYear_def getMonth_def getDate_def setFullYear_def setMonth_def setDate_def
  new_Date_def new_Date_text_def toISOString_date_def TimeClip_def min_time_def max_time_def
  shift_minutes_def at_time_def date_of_def time_le_def time_lt_def date_le_def date_lt_def
  plus_int_def make_day_def days_in_month_def leap_year_def iso_date_def

subsection \<open>Contract end date\<close>

text \<open>
  C3. For every start date, present or absent (\<open>startDate\<close> ranges over both), and on every
  host, \<open>calculateContractEndDate\<close> with 0 years and 0 months returns the explicit result
  \<open>Inr None\<close> (the source's \<^verbatim>\<open>null\<close>), and so it does for an absent start date whatever the
  years and months. That result is no date, \<open>Inr (Some d)\<close>, and no exception, \<open>Inl e\<close>.
\<close>

theorem zero_duration_or_absent_start:
  "calculateContractEndDate h startDate 0 0 = Inr None
   \<and> calculateContractEndDate h None n_years n_months = Inr None
   \<and> calculateContractEndDate h startDate 0 0 \<noteq> Inr (Some d)
   \<and> calculateContractEndDate h startDate 0 0 \<noteq> Inl e"
  by (simp add: calculateContractEndDate_def split: option.split)

text \<open>
  C2. On a host at UTC, and on one at the offset of Asia/Kathmandu,
  \<open>calculateContractEndDate\<close> of 2024-01-01 and 1 year is 2024-12-31, but on a leap day
  the function leaves the specification's formula: for a start on 2024-02-29 and 1 year
  and 1 month, adding 1 to the year and 1 to the month gives 2025-03-29, so the formula
  gives 2025-03-28, while \<^verbatim>\<open>setFullYear\<close> first turns the date into 2025-03-01,
  \<^verbatim>\<open>setMonth\<close> then makes it 2025-04-01, and the function returns 2025-03-31.
\<close>

theorem contract_end_leap_day:
  "calculateContractEndDate (h\<lparr>utc_offset := 0\<rparr>) (Some (iso_date 2024 2 29)) 1 1
     = Inr (Some (iso_date 2025 3 31))
   \<and> contract_end_spec (iso_date 2024 2 29) 1 1 = iso_date 2025 3 28
   \<and> calculateContractEndDate (h\<lparr>utc_offset := 345\<rparr>) (Some (iso_date 2024 2 29)) 1 1
     = Inr (Some (iso_date 2025 3 31))
   \<and> calculateContractEndDate (h\<lparr>utc_offset := 0\<rparr>) (Some (iso_date 2024 1 1)) 1 0
     = Inr (Some (iso_date 2024 12 31))"
  by (simp add: calculateContractEndDate_def contract_end_spec_def previous_day_def date_api
      norm_day.simps)

text \<open>
  C9. On the same leap day the dashboard and \<open>calculateContractEndDate\<close> disagree, at UTC
  and at the offset of Asia/Kathmandu: the dashboard adds 13 months at once and ends the
  contract on 2025-03-28, the function ends it on 2025-03-31.
\<close>

theorem dashboard_differs_on_leap_day:
  "toISOString_date (h\<lparr>utc_offset := 0\<rparr>)
       (dashboard_contractEnd (h\<lparr>utc_offset := 0\<rparr>) (iso_date 2024 2 29) 1 1)
     = Inr (iso_date 2025 3 28)
   \<and> calculateContractEndDate (h\<lparr>utc_offset := 0\<rparr>) (Some (iso_date 2024 2 29)) 1 1
     = Inr (Some (iso_date 2025 3 31))
   \<and> toISOString_date (h\<lparr>utc_offset := 345\<rparr>)
       (dashboard_contractEnd (h\<lparr>utc_offset := 345\<rparr>) (iso_date 2024 2 29) 1 1)
     = Inr (iso_date 2025 3 28)
   \<and> calculateContractEndDate (h\<lparr>utc_offset := 345\<rparr>) (Some (iso_date 2024 2 29)) 1 1
     = Inr (Some (iso_date 2025 3 31))"
  by (simp add: calculateContractEndDate_def dashboard_contractEnd_def date_api norm_day.simps)

subsection \<open>Effective monthly rent\<close>

text \<open>
  C5. When the increment interval is 0 years or the increment percentage is 0, the effective
  monthly rent at every reference date is the base monthly rent, on every host: line 330
  returns before the loop and before any arithmetic on the rent.
\<close>

theorem rent_constant_without_increment:
  "rent_increment_interval_years t = 0 \<or> rent_increment_percentage t = Fin 0 0 \<Longrightarrow>
   getEffectiveMonthlyRentForDate h t atDate = monthly_rent t"
proof -
  have "js_div (Math_max (or_zero (Fin 0 0)) (Fin 0 0)) (js_of_int 100) = Fin 0 0"
    by code_simp
  then show "rent_increment_interval_years t = 0 \<or> rent_increment_percentage t = Fin 0 0 \<Longrightarrow>
    getEffectiveMonthlyRentForDate h t atDate = monthly_rent t"
    by (auto simp: getEffectiveMonthlyRentForDate_def Let_def)
qed

theorem rent_constant_without_increment_witness:
  "(rent_increment_interval_years
       (tenant_of (iso_date 2020 1 1) 5 0 (js_of_int 10000) (js_of_int 10) 0) = 0
    \<or> rent_increment_percentage
       (tenant_of (iso_date 2020 1 1) 5 0 (js_of_int 10000) (js_of_int 10) 0) = Fin 0 0)
   \<and> getEffectiveMonthlyRentForDate (host_at 345)
        (tenant_of (iso_date 2020 1 1) 5 0 (js_of_int 10000) (js_of_int 10) 0)
        (new_Date_text (host_at 345) (iso_date 2024 6 1)) = js_of_int 10000"
  using rent_constant_without_increment
    [of "tenant_of (iso_date 2020 1 1) 5 0 (js_of_int 10000) (js_of_int 10) 0" "host_at 345"
      "new_Date_text (host_at 345) (iso_date 2024 6 1)"]
  by (simp add: tenant_of_def)


















subsection \<open>Billing frequency\<close>





end
